theory Spec2Isabelle
  imports Complex_Main "HOL-Library.AList" "HOL-Library.Sublist"
begin

section \<open>Data model\<close>

text \<open>
  The server keeps two registries, both JavaScript \<open>Map\<close>s keyed by the room id:
  \<open>Room.rooms\<close> (models/Room.js) and \<open>Game.games\<close> (models/Game.js). A \<open>Map\<close> iterates in
  insertion order and \<open>set\<close> on an existing key keeps its position, which is what an
  association list with \<open>AList.update\<close> does; \<open>map_of\<close> is \<open>Map.get\<close> and \<open>AList.delete\<close>
  is \<open>Map.delete\<close>. Objects held in the registries are mutated in place by the source; the
  model writes the mutated object back under its key.

  Socket ids, room ids, user names and words are strings. As the text of a chat message is
  only compared after \<open>toLowerCase\<close> and \<open>trim\<close>, strings are taken over the ASCII range.
  Numbers that the model reads (rounds, draw time, scores, clock readings in milliseconds)
  are integers; the time bonus is computed over the rationals, as the source divides.
\<close>

record user =
  u_id :: string
  u_username :: string
  u_color :: string

record drawingEvent =
  de_type :: string
  de_data :: string
  de_userId :: string
  de_timestamp :: int

record room =
  r_id :: string
  r_name :: string
  users :: "user list"
  drawingData :: "drawingEvent list"
  createdAt :: int

record player =
  p_id :: string
  p_username :: string
  score :: int
  hasGuessed :: bool

text \<open>
  The \<open>settings\<close> object of \<open>start-game\<close>: either field may be absent. The argument of
  \<open>createGame\<close> itself may be \<open>undefined\<close> (the default parameter \<open>{}\<close> applies) or
  \<open>null\<close> (reading a property of it throws).
\<close>

record settings =
  s_rounds :: "int option"
  s_drawTime :: "int option"


datatype error = TypeError

record game =
  g_roomId :: string
  rounds :: int
  currentRound :: int
  drawTime :: int
  isActive :: bool
  isRoundActive :: bool
  currentDrawer :: "string option"
  currentWord :: "string option"
  wordOptions :: "string list"
  players :: "player list"
  guessedPlayers :: "string list"
  roundStartTime :: "int option"
  usedWords :: "string list"
  g_settings :: settings

record scoreEntry =
  se_id :: string
  se_username :: string
  se_score :: int

record roundResult =
  rr_word :: "string option"
  rr_scores :: "scoreEntry list"

record gameResult =
  gr_winner :: "player option"
  gr_scores :: "scoreEntry list"

record roundData =
  rd_drawer :: player
  rd_wordOptions :: "string list"
  rd_round :: int
  rd_totalRounds :: int

text \<open>
  The object returned by \<open>processGuess\<close>. The failing returns carry only \<open>correct\<close>,
  \<open>points\<close> and \<open>player\<close>; their missing \<open>allGuessed\<close> and \<open>isFirst\<close> read as falsy and are
  \<open>False\<close> here, the missing \<open>guessOrder\<close> is \<open>0\<close>.
\<close>

record guessResult =
  correct :: bool
  points :: int
  gs_player :: "player option"
  allGuessed :: bool
  isFirst :: bool
  guessOrder :: nat

record state =
  rooms :: "(string \<times> room) list"
  games :: "(string \<times> game) list"

section \<open>Array and string primitives of the language\<close>

text \<open>\<open>Array.prototype.findIndex\<close>, with \<open>None\<close> for \<open>-1\<close>.\<close>

fun findIndex :: "('a \<Rightarrow> bool) \<Rightarrow> 'a list \<Rightarrow> nat option" where
  "findIndex P [] = None"
| "findIndex P (x # xs) = (if P x then Some 0 else map_option Suc (findIndex P xs))"

text \<open>\<open>xs.splice(i, 1)\<close>: the array without its element at index \<open>i\<close>.\<close>

definition splice1 :: "nat \<Rightarrow> 'a list \<Rightarrow> 'a list" where
  "splice1 i xs = take i xs @ drop (Suc i) xs"

text \<open>
  \<open>xs.find(P)\<close> returns a reference to the first element satisfying \<open>P\<close>, and the source
  then assigns to fields of that object: the first such element of the array changes.
\<close>

fun update_first :: "('a \<Rightarrow> bool) \<Rightarrow> ('a \<Rightarrow> 'a) \<Rightarrow> 'a list \<Rightarrow> 'a list" where
  "update_first P f [] = []"
| "update_first P f (x # xs) = (if P x then f x # xs else x # update_first P f xs)"

definition lower_char :: "char \<Rightarrow> char" where
  "lower_char c =
     (let n = (of_char c :: nat) in if 65 \<le> n \<and> n \<le> 90 then char_of (n + 32) else c)"

definition toLowerCase :: "string \<Rightarrow> string" where
  "toLowerCase s = map lower_char s"

definition is_space :: "char \<Rightarrow> bool" where
  "is_space c = (let n = (of_char c :: nat) in n = 32 \<or> (9 \<le> n \<and> n \<le> 13))"

definition trim :: "string \<Rightarrow> string" where
  "trim s = rev (dropWhile is_space (rev (dropWhile is_space s)))"

text \<open>\<open>cs.join(' ')\<close> for an array of one-character strings.\<close>

fun join_space :: "char list \<Rightarrow> string" where
  "join_space [] = []"
| "join_space [c] = [c]"
| "join_space (c # d # cs) = c # CHR '' '' # join_space (d # cs)"

text \<open>\<open>x || d\<close> for a number that may be absent: absent and \<open>0\<close> are falsy.\<close>

definition or_default :: "int option \<Rightarrow> int \<Rightarrow> int" where
  "or_default x d = (case x of None \<Rightarrow> d | Some n \<Rightarrow> if n = 0 then d else n)"

section \<open>models/Room.js\<close>

text \<open>The fresh UUID and the creation time are inputs.\<close>

definition createRoom ::
  "(string \<times> room) list \<Rightarrow> string \<Rightarrow> string \<Rightarrow> int \<Rightarrow> room \<times> (string \<times> room) list" where
  "createRoom rs roomName uuid now =
     (let r = \<lparr>r_id = uuid, r_name = roomName, users = [], drawingData = [], createdAt = now\<rparr>
      in (r, AList.update uuid r rs))"

definition getRoom :: "(string \<times> room) list \<Rightarrow> string \<Rightarrow> room option" where
  "getRoom rs rid = map_of rs rid"

definition addUser :: "(string \<times> room) list \<Rightarrow> string \<Rightarrow> user \<Rightarrow> bool \<times> (string \<times> room) list" where
  "addUser rs rid u =
     (case map_of rs rid of
        None \<Rightarrow> (False, rs)
      | Some r \<Rightarrow> (True, AList.update rid (r\<lparr>users := users r @ [u]\<rparr>) rs))"

definition removeUser ::
  "(string \<times> room) list \<Rightarrow> string \<Rightarrow> string \<Rightarrow> user option \<times> (string \<times> room) list" where
  "removeUser rs rid userId =
     (case map_of rs rid of
        None \<Rightarrow> (None, rs)
      | Some r \<Rightarrow>
          (case findIndex (\<lambda>u. u_id u = userId) (users r) of
             None \<Rightarrow> (None, rs)
           | Some userIndex \<Rightarrow>
               (let removedUser = users r ! userIndex;
                    us = splice1 userIndex (users r)
                in (Some removedUser,
                    if length us = 0 then AList.delete rid rs
                    else AList.update rid (r\<lparr>users := us\<rparr>) rs))))"

definition getDrawingData :: "(string \<times> room) list \<Rightarrow> string \<Rightarrow> drawingEvent list" where
  "getDrawingData rs rid = (case map_of rs rid of None \<Rightarrow> [] | Some r \<Rightarrow> drawingData r)"


definition getAllRooms :: "(string \<times> room) list \<Rightarrow> room list" where
  "getAllRooms rs = map snd rs"

definition getUser :: "(string \<times> room) list \<Rightarrow> string \<Rightarrow> string \<Rightarrow> user option" where
  "getUser rs rid userId =
     (case map_of rs rid of None \<Rightarrow> None | Some r \<Rightarrow> find (\<lambda>u. u_id u = userId) (users r))"

section \<open>models/Game.js\<close>

text \<open>
  Each method of the \<open>Game\<close> model looks the game up in the registry and works on that
  object. The work on the object is a function \<open>..._on\<close> of the game; the method itself
  does the lookup and stores the result.
\<close>

definition noSettings :: settings where
  "noSettings = \<lparr>s_rounds = None, s_drawTime = None\<rparr>"

definition createGameWith ::
  "(string \<times> game) list \<Rightarrow> string \<Rightarrow> settings \<Rightarrow> game \<times> (string \<times> game) list" where
  "createGameWith gs rid s =
     (let gameState =
            \<lparr>g_roomId = rid,
             rounds = or_default (s_rounds s) 3,
             currentRound = 0,
             drawTime = or_default (s_drawTime s) 60,
             isActive = False,
             isRoundActive = False,
             currentDrawer = None,
             currentWord = None,
             wordOptions = [],
             players = [],
             guessedPlayers = [],
             roundStartTime = None,
             usedWords = [],
             g_settings = s\<rparr>
      in (gameState, AList.update rid gameState gs))"


definition getGame :: "(string \<times> game) list \<Rightarrow> string \<Rightarrow> game option" where
  "getGame gs rid = map_of gs rid"

definition addPlayer_on :: "game \<Rightarrow> user \<Rightarrow> game" where
  "addPlayer_on g u =
     (case find (\<lambda>p. p_id p = u_id u) (players g) of
        Some existingPlayer \<Rightarrow> g
      | None \<Rightarrow>
          g\<lparr>players := players g @
               [\<lparr>p_id = u_id u, p_username = u_username u, score = 0, hasGuessed = False\<rparr>]\<rparr>)"

definition addPlayer :: "(string \<times> game) list \<Rightarrow> string \<Rightarrow> user \<Rightarrow> bool \<times> (string \<times> game) list" where
  "addPlayer gs rid u =
     (case map_of gs rid of
        None \<Rightarrow> (False, gs)
      | Some g \<Rightarrow> (True, AList.update rid (addPlayer_on g u) gs))"

definition toScore :: "player \<Rightarrow> scoreEntry" where
  "toScore p = \<lparr>se_id = p_id p, se_username = p_username p, se_score = score p\<rparr>"

definition endRound_on :: "game \<Rightarrow> roundResult \<times> game" where
  "endRound_on g =
     (\<lparr>rr_word = currentWord g, rr_scores = map toScore (players g)\<rparr>,
      g\<lparr>isRoundActive := False, currentWord := None, wordOptions := []\<rparr>)"

definition endRound :: "(string \<times> game) list \<Rightarrow> string \<Rightarrow> roundResult option \<times> (string \<times> game) list" where
  "endRound gs rid =
     (case map_of gs rid of
        None \<Rightarrow> (None, gs)
      | Some g \<Rightarrow> (Some (fst (endRound_on g)), AList.update rid (snd (endRound_on g)) gs))"

definition removePlayer_on :: "game \<Rightarrow> string \<Rightarrow> player option \<times> game" where
  "removePlayer_on g playerId =
     (case findIndex (\<lambda>p. p_id p = playerId) (players g) of
        None \<Rightarrow> (None, g)
      | Some playerIndex \<Rightarrow>
          (let removedPlayer = players g ! playerIndex;
               g1 = g\<lparr>players := splice1 playerIndex (players g)\<rparr>
           in (Some removedPlayer,
               if currentDrawer g1 = Some playerId \<and> isRoundActive g1
               then snd (endRound_on g1) else g1)))"

definition removePlayer ::
  "(string \<times> game) list \<Rightarrow> string \<Rightarrow> string \<Rightarrow> player option \<times> (string \<times> game) list" where
  "removePlayer gs rid playerId =
     (case map_of gs rid of
        None \<Rightarrow> (None, gs)
      | Some g \<Rightarrow>
          (fst (removePlayer_on g playerId), AList.update rid (snd (removePlayer_on g playerId)) gs))"



text \<open>
  \<open>[...players].sort((a, b) => b.score - a.score)\<close>: a stable sort, descending by score.
  \<open>sort_key\<close> is a stable insertion sort.
\<close>

definition sortByScore :: "player list \<Rightarrow> player list" where
  "sortByScore ps = sort_key (\<lambda>p. - score p) ps"

definition endGame_on :: "game \<Rightarrow> gameResult \<times> game" where
  "endGame_on g =
     (let sortedPlayers = sortByScore (players g)
      in (\<lparr>gr_winner = (case sortedPlayers of [] \<Rightarrow> None | w # _ \<Rightarrow> Some w),
           gr_scores = map toScore sortedPlayers\<rparr>,
          g\<lparr>isActive := False, isRoundActive := False\<rparr>))"

definition endGame :: "(string \<times> game) list \<Rightarrow> string \<Rightarrow> gameResult option \<times> (string \<times> game) list" where
  "endGame gs rid =
     (case map_of gs rid of
        None \<Rightarrow> (None, gs)
      | Some g \<Rightarrow> (Some (fst (endGame_on g)), AList.update rid (snd (endGame_on g)) gs))"

definition allWords :: "string list" where
  "allWords =
     [''apple'', ''banana'', ''cat'', ''dog'', ''house'', ''tree'', ''car'', ''sun'',
      ''moon'', ''star'', ''flower'', ''book'', ''phone'', ''chair'', ''table'', ''cup'',
      ''elephant'', ''guitar'', ''mountain'', ''rainbow'', ''butterfly'', ''umbrella'',
      ''camera'', ''bicycle'', ''pizza'', ''rocket'', ''castle'', ''diamond'',
      ''telescope'', ''helicopter'', ''saxophone'', ''lighthouse'', ''penguin'',
      ''kangaroo'', ''watermelon'', ''pineapple'', ''dinosaur'', ''computer'',
      ''football'', ''basketball'', ''baseball'', ''tennis'', ''swimming'',
      ''dragon'', ''unicorn'', ''mermaid'', ''wizard'', ''pirate'',
      ''crown'', ''sword'', ''shield'', ''treasure'', ''bridge'']"

text \<open>
  \<open>availableWords.sort(() => Math.random() - 0.5)\<close> rearranges the array in an order
  that depends on the random source. The rearrangement is the parameter \<open>shuffle\<close>; what
  the theorems need of it (that it returns a permutation of its argument) is stated where
  it is used.
\<close>

definition generateWordOptions :: "(string list \<Rightarrow> string list) \<Rightarrow> string list \<Rightarrow> string list" where
  "generateWordOptions shuffle used =
     (let availableWords = filter (\<lambda>w. w \<notin> set used) allWords;
          shuffled = shuffle availableWords
      in take 3 shuffled)"

text \<open>
  The remainder \<open>a % n\<close> of the language takes the sign of \<open>a\<close>. With no players it is
  \<open>NaN\<close>, and with a negative result it is a negative index: \<open>players[...]\<close> is then
  \<open>undefined\<close> and reading its \<open>id\<close> throws, after the round counter was advanced.
\<close>

definition js_rem :: "int \<Rightarrow> int \<Rightarrow> int" where
  "js_rem a n = (if 0 \<le> a then a mod n else - ((- a) mod n))"

definition startRound_on ::
  "(string list \<Rightarrow> string list) \<Rightarrow> game \<Rightarrow> (error + roundData option) \<times> game" where
  "startRound_on shuffle g =
     (let g1 = g\<lparr>currentRound := currentRound g + 1\<rparr>
      in if currentRound g1 > rounds g1 then (Inr None, snd (endGame_on g1))
         else
           (let n = int (length (players g1));
                drawerIndex = js_rem (currentRound g1 - 1) n
            in if n = 0 \<or> drawerIndex < 0 then (Inl TypeError, g1)
               else
                 (let drawer = players g1 ! nat drawerIndex;
                      g2 = g1\<lparr>currentDrawer := Some (p_id drawer),
                              wordOptions := generateWordOptions shuffle (usedWords g1),
                              currentWord := None,
                              guessedPlayers := [],
                              players := map (\<lambda>p. p\<lparr>hasGuessed := False\<rparr>) (players g1),
                              isRoundActive := False\<rparr>
                  in (Inr (Some \<lparr>rd_drawer = drawer\<lparr>hasGuessed := False\<rparr>,
                                  rd_wordOptions = wordOptions g2,
                                  rd_round = currentRound g2,
                                  rd_totalRounds = rounds g2\<rparr>), g2))))"

definition startRound ::
  "(string list \<Rightarrow> string list) \<Rightarrow> (string \<times> game) list \<Rightarrow> string
     \<Rightarrow> (error + roundData option) \<times> (string \<times> game) list" where
  "startRound shuffle gs rid =
     (case map_of gs rid of
        None \<Rightarrow> (Inr None, gs)
      | Some g \<Rightarrow>
          if \<not> isActive g then (Inr None, gs)
          else (fst (startRound_on shuffle g), AList.update rid (snd (startRound_on shuffle g)) gs))"

text \<open>The clock reading \<open>Date.now()\<close> is the input \<open>now\<close>, in milliseconds.\<close>

definition selectWord_on :: "game \<Rightarrow> string \<Rightarrow> int \<Rightarrow> bool \<times> game" where
  "selectWord_on g word now =
     (if word \<notin> set (wordOptions g) then (False, g)
      else (True, g\<lparr>currentWord := Some word,
                    usedWords := usedWords g @ [word],
                    isRoundActive := True,
                    roundStartTime := Some now\<rparr>))"

definition selectWord ::
  "(string \<times> game) list \<Rightarrow> string \<Rightarrow> string \<Rightarrow> int \<Rightarrow> bool \<times> (string \<times> game) list" where
  "selectWord gs rid word now =
     (case map_of gs rid of
        None \<Rightarrow> (False, gs)
      | Some g \<Rightarrow>
          (fst (selectWord_on g word now), AList.update rid (snd (selectWord_on g word now)) gs))"

text \<open>
  \<open>processGuess\<close>. The two early returns come first; the mutation happens only under
  \<open>isCorrect\<close>. \<open>!game.currentWord\<close> holds for \<open>null\<close> and for the empty string. A
  \<open>roundStartTime\<close> of \<open>null\<close> counts as \<open>0\<close> in the subtraction.
\<close>

definition noGuess :: guessResult where
  "noGuess = \<lparr>correct = False, points = 0, gs_player = None,
              allGuessed = False, isFirst = False, guessOrder = 0\<rparr>"

definition basePoints :: "nat \<Rightarrow> int" where
  "basePoints order =
     (if order = 1 then 100 else if order = 2 then 75 else if order = 3 then 50 else 25)"

definition timeElapsed :: "game \<Rightarrow> int \<Rightarrow> rat" where
  "timeElapsed g now =
     of_int (now - (case roundStartTime g of None \<Rightarrow> 0 | Some t \<Rightarrow> t)) / 1000"

definition timeBonus :: "game \<Rightarrow> int \<Rightarrow> int" where
  "timeBonus g now = max 0 \<lfloor>(of_int (drawTime g) - timeElapsed g now) / 2\<rfloor>"

definition isDrawer :: "game \<Rightarrow> player \<Rightarrow> bool" where
  "isDrawer g p = (currentDrawer g = Some (p_id p))"

definition processGuess_on :: "game \<Rightarrow> string \<Rightarrow> string \<Rightarrow> int \<Rightarrow> guessResult \<times> game" where
  "processGuess_on g playerId guess now =
     (case currentWord g of
        None \<Rightarrow> (noGuess, g)
      | Some word \<Rightarrow>
          if \<not> isRoundActive g \<or> word = [] then (noGuess, g)
          else
            (case find (\<lambda>p. p_id p = playerId) (players g) of
               None \<Rightarrow> (noGuess, g)
             | Some pl \<Rightarrow>
                 if hasGuessed pl \<or> currentDrawer g = Some playerId then (noGuess, g)
                 else if trim (toLowerCase guess) = toLowerCase word then
                   (let guessed = guessedPlayers g @ [playerId];
                        order = length guessed;
                        pts = basePoints order + timeBonus g now;
                        pl' = pl\<lparr>hasGuessed := True, score := score pl + pts\<rparr>;
                        ps1 = update_first (\<lambda>p. p_id p = playerId)
                                (\<lambda>p. p\<lparr>hasGuessed := True, score := score p + pts\<rparr>) (players g);
                        ps2 = update_first (isDrawer g) (\<lambda>d. d\<lparr>score := score d + 25\<rparr>) ps1;
                        nonDrawerPlayers = filter (\<lambda>p. \<not> isDrawer g p) ps2
                    in (\<lparr>correct = True, points = pts, gs_player = Some pl',
                         allGuessed = list_all hasGuessed nonDrawerPlayers,
                         isFirst = (order = 1), guessOrder = order\<rparr>,
                        g\<lparr>players := ps2, guessedPlayers := guessed\<rparr>))
                 else (noGuess, g)))"

definition processGuess ::
  "(string \<times> game) list \<Rightarrow> string \<Rightarrow> string \<Rightarrow> string \<Rightarrow> int
     \<Rightarrow> guessResult \<times> (string \<times> game) list" where
  "processGuess gs rid playerId guess now =
     (case map_of gs rid of
        None \<Rightarrow> (noGuess, gs)
      | Some g \<Rightarrow>
          (let r = processGuess_on g playerId guess now
           in (fst r, AList.update rid (snd r) gs)))"

definition getMaskedWord :: "string \<Rightarrow> string" where
  "getMaskedWord word = join_space (map (\<lambda>c. CHR ''_'') word)"

text \<open>
  \<open>getHint\<close>. The values of \<open>Math.floor(Math.random() * word.length)\<close> that the loop
  draws are the input \<open>rolls\<close>, in the order drawn. The loop draws until it has collected
  enough distinct indices; it gives \<open>None\<close> when the rolls are used up before that.
\<close>

fun pickIndices :: "nat \<Rightarrow> nat \<Rightarrow> nat list \<Rightarrow> nat list \<Rightarrow> nat list option" where
  "pickIndices revealCount len indices [] =
     (if length indices < revealCount \<and> length indices < len then None else Some indices)"
| "pickIndices revealCount len indices (randomIndex # rolls) =
     (if length indices < revealCount \<and> length indices < len
      then pickIndices revealCount len
             (if randomIndex \<in> set indices then indices else indices @ [randomIndex]) rolls
      else Some indices)"

definition reveal :: "nat list \<Rightarrow> string \<Rightarrow> string" where
  "reveal indices word =
     join_space (map (\<lambda>(i, c). if i \<in> set indices then c else CHR ''_'') (enumerate 0 word))"

definition getHint :: "string \<Rightarrow> nat \<Rightarrow> nat list \<Rightarrow> string option" where
  "getHint word revealCount rolls =
     (if word = [] then Some []
      else map_option (\<lambda>indices. reveal indices word)
             (pickIndices revealCount (length word) [] rolls))"

text \<open>
  Modelled from the spec: \<open>Game.getLeaderboard\<close>, which the chat handler calls and the
  model file does not define. The spec has it as the players sorted by score, descending,
  each as \<open>{id, username, score}\<close>.
\<close>

definition getLeaderboard :: "(string \<times> game) list \<Rightarrow> string \<Rightarrow> scoreEntry list" where
  "getLeaderboard gs rid =
     (case map_of gs rid of None \<Rightarrow> [] | Some g \<Rightarrow> map toScore (sortByScore (players g)))"

definition deleteGame :: "(string \<times> game) list \<Rightarrow> string \<Rightarrow> (string \<times> game) list" where
  "deleteGame gs rid = AList.delete rid gs"

section \<open>controllers/socketController.js\<close>

text \<open>
  A handler runs for one socket (\<open>sid\<close> is \<open>socket.id\<close>). What it sends is a list of
  emissions in program order: \<open>socket.emit\<close> reaches the socket itself (\<open>ToSelf\<close>) and
  \<open>socket.to(roomId).emit\<close> reaches every socket joined to \<open>roomId\<close> but this one
  (\<open>ToOthers roomId\<close>). What it schedules with \<open>setTimeout\<close> is a list of delays in
  milliseconds with the call that the callback makes.
\<close>

datatype target = ToSelf | ToOthers string

record gameStateView =
  gv_isActive :: bool
  gv_isRoundActive :: bool
  gv_currentRound :: int
  gv_totalRounds :: int
  gv_currentDrawer :: "string option"
  gv_players :: "player list"

datatype event =
    ErrorEv string
  | RoomJoined string string user "user list" "drawingEvent list" gameStateView
  | UserJoined user
  | UserLeft user
  | ChatMessage user string int bool
  | CorrectGuess "player option" int "string option"
  | LeaderboardUpdate "scoreEntry list"
  | CanvasCleared
  | GameStarted int int
  | HintRevealed string
  | RoundEnded roundResult

datatype callback =
    CallHandleEndRound string
  | CallHandleStartRound string
  | CallEndGame string

record outcome =
  o_state :: state
  o_emits :: "(target \<times> event) list"
  o_timers :: "(nat \<times> callback) list"

definition silent :: "state \<Rightarrow> outcome" where
  "silent s = \<lparr>o_state = s, o_emits = [], o_timers = []\<rparr>"

text \<open>
  The handlers join a socket to the fan-out set of a room exactly when they add its user
  to the room (\<open>socket.join\<close> follows \<open>Room.addUser\<close>), and a socket leaves every set
  when it disconnects. The sockets joined to a room are therefore the ids of its users.
\<close>

definition fanout :: "state \<Rightarrow> string \<Rightarrow> string list" where
  "fanout s rid = (case map_of (rooms s) rid of None \<Rightarrow> [] | Some r \<Rightarrow> map u_id (users r))"

fun recipients :: "state \<Rightarrow> string \<Rightarrow> target \<Rightarrow> string list" where
  "recipients s sid ToSelf = [sid]"
| "recipients s sid (ToOthers rid) = filter (\<lambda>m. m \<noteq> sid) (fanout s rid)"

text \<open>The sockets that receive at least one emission satisfying \<open>P\<close>.\<close>

definition receivers :: "state \<Rightarrow> string \<Rightarrow> (event \<Rightarrow> bool) \<Rightarrow> (target \<times> event) list \<Rightarrow> string set" where
  "receivers s sid P es = (\<Union>(t, e) \<in> set es. if P e then set (recipients s sid t) else {})"

text \<open>\<open>handleJoinRoom\<close>; the colour drawn from the palette is the input \<open>color\<close>.\<close>

definition handleJoinRoom :: "state \<Rightarrow> string \<Rightarrow> string \<Rightarrow> string \<Rightarrow> string \<Rightarrow> outcome" where
  "handleJoinRoom s sid rid username color =
     (if rid = [] \<or> username = [] then
        \<lparr>o_state = s, o_emits = [(ToSelf, ErrorEv ''Room ID and username are required'')],
         o_timers = []\<rparr>
      else
        (case getRoom (rooms s) rid of
           None \<Rightarrow> \<lparr>o_state = s, o_emits = [(ToSelf, ErrorEv ''Room not found'')], o_timers = []\<rparr>
         | Some room0 \<Rightarrow>
             (let u = \<lparr>u_id = sid, u_username = username, u_color = color\<rparr>;
                  rs1 = snd (addUser (rooms s) rid u);
                  gs1 = (case getGame (games s) rid of
                           None \<Rightarrow> snd (createGameWith (games s) rid noSettings)
                         | Some g \<Rightarrow> games s);
                  gs2 = snd (addPlayer gs1 rid u);
                  s' = \<lparr>rooms = rs1, games = gs2\<rparr>
              in (case (getRoom rs1 rid, getGame gs2 rid) of
                    (Some r, Some g) \<Rightarrow>
                      \<lparr>o_state = s',
                       o_emits =
                         [(ToSelf, RoomJoined (r_id r) (r_name r) u (users r) (getDrawingData rs1 rid)
                                     \<lparr>gv_isActive = isActive g, gv_isRoundActive = isRoundActive g,
                                      gv_currentRound = currentRound g, gv_totalRounds = rounds g,
                                      gv_currentDrawer = currentDrawer g, gv_players = players g\<rparr>),
                          (ToOthers rid, UserJoined u)],
                       o_timers = []\<rparr>
                  | _ \<Rightarrow> silent s'))))"

text \<open>
  \<open>handleChatMessage\<close>. \<open>game\<close> is a reference, so \<open>game.currentWord\<close> and the
  leaderboard are read from the registry as \<open>processGuess\<close> left it.
\<close>

definition chatBroadcast :: "state \<Rightarrow> user \<Rightarrow> string \<Rightarrow> string \<Rightarrow> int \<Rightarrow> bool \<Rightarrow> outcome" where
  "chatBroadcast s u rid message now isGuess =
     (let messageData = ChatMessage u message now isGuess
      in \<lparr>o_state = s, o_emits = [(ToOthers rid, messageData), (ToSelf, messageData)],
          o_timers = []\<rparr>)"

definition handleChatMessage :: "state \<Rightarrow> string \<Rightarrow> string \<Rightarrow> string \<Rightarrow> int \<Rightarrow> outcome" where
  "handleChatMessage s sid rid message now =
     (if rid = [] \<or> message = [] then silent s
      else
        (case getUser (rooms s) rid sid of
           None \<Rightarrow> silent s
         | Some u \<Rightarrow>
             (let isGuess = (case getGame (games s) rid of
                               None \<Rightarrow> False
                             | Some g \<Rightarrow> isRoundActive g \<and> currentDrawer g \<noteq> Some sid)
              in if isGuess then
                   (let guessed = processGuess (games s) rid sid message now;
                        guessResult = fst guessed;
                        gs' = snd guessed;
                        s' = s\<lparr>games := gs'\<rparr>
                    in if correct guessResult then
                         \<lparr>o_state = s',
                          o_emits =
                            [(ToOthers rid,
                                CorrectGuess (gs_player guessResult) (points guessResult) None),
                             (ToSelf,
                                CorrectGuess (gs_player guessResult) (points guessResult)
                                  (case getGame gs' rid of None \<Rightarrow> None | Some g \<Rightarrow> currentWord g)),
                             (ToOthers rid, LeaderboardUpdate (getLeaderboard gs' rid)),
                             (ToSelf, LeaderboardUpdate (getLeaderboard gs' rid))],
                          o_timers =
                            (if allGuessed guessResult then [(2000, CallHandleEndRound rid)] else [])\<rparr>
                       else chatBroadcast s' u rid message now isGuess)
                 else chatBroadcast s u rid message now isGuess)))"


text \<open>
  \<open>handleRequestHint\<close>, with the random draws of \<open>getHint\<close> as input; \<open>None\<close> when
  \<open>getHint\<close> does not return with them.
\<close>

definition handleRequestHint :: "state \<Rightarrow> string \<Rightarrow> string \<Rightarrow> nat list \<Rightarrow> outcome option" where
  "handleRequestHint s sid rid rolls =
     (if rid = [] then Some (silent s)
      else
        (case getGame (games s) rid of
           None \<Rightarrow> Some (silent s)
         | Some g \<Rightarrow>
             (case currentWord g of
                None \<Rightarrow> Some (silent s)
              | Some word \<Rightarrow>
                  if \<not> isRoundActive g then Some (silent s)
                  else if word = [] then Some (silent s)
                  else
                    (case getHint word 1 rolls of
                       None \<Rightarrow> None
                     | Some hint \<Rightarrow>
                         Some \<lparr>o_state = s,
                               o_emits =
                                 (ToOthers rid, HintRevealed hint) #
                                 (if currentDrawer g \<noteq> Some sid then [(ToSelf, HintRevealed hint)]
                                  else []),
                               o_timers = []\<rparr>))))"

text \<open>
  \<open>handleEndRound\<close>. \<open>Game.endRound\<close> returns \<open>null\<close> only when the room has no game,
  which the handler has already excluded.
\<close>

definition handleEndRound :: "state \<Rightarrow> string \<Rightarrow> string \<Rightarrow> outcome" where
  "handleEndRound s sid rid =
     (if rid = [] then silent s
      else
        (case getGame (games s) rid of
           None \<Rightarrow> silent s
         | Some game0 \<Rightarrow>
             (case endRound (games s) rid of
                (None, gs') \<Rightarrow> silent (s\<lparr>games := gs'\<rparr>)
              | (Some res, gs') \<Rightarrow>
                  \<lparr>o_state = s\<lparr>games := gs'\<rparr>,
                   o_emits = [(ToOthers rid, RoundEnded res), (ToSelf, RoundEnded res)],
                   o_timers =
                     (if currentRound game0 \<ge> rounds game0 then [(5000, CallEndGame rid)]
                      else [(5000, CallHandleStartRound rid)])\<rparr>)))"

text \<open>
  \<open>handleDisconnect\<close>: the body of the \<open>forEach\<close> over the rooms that existed when the
  handler started, then the loop.
\<close>

definition disconnectFrom :: "string \<Rightarrow> outcome \<Rightarrow> room \<Rightarrow> outcome" where
  "disconnectFrom sid acc r =
     (let s = o_state acc
      in case getUser (rooms s) (r_id r) sid of
           None \<Rightarrow> acc
         | Some u \<Rightarrow>
             acc\<lparr>o_state := \<lparr>rooms = snd (removeUser (rooms s) (r_id r) sid),
                             games = snd (removePlayer (games s) (r_id r) sid)\<rparr>,
                 o_emits := o_emits acc @ [(ToOthers (r_id r), UserLeft u)]\<rparr>)"

definition handleDisconnect :: "state \<Rightarrow> string \<Rightarrow> outcome" where
  "handleDisconnect s sid = foldl (disconnectFrom sid) (silent s) (getAllRooms (rooms s))"

text \<open>Which emissions are of a given kind.\<close>

definition isChat :: "string \<Rightarrow> event \<Rightarrow> bool" where
  "isChat text e = (case e of ChatMessage u m t g \<Rightarrow> m = text | _ \<Rightarrow> False)"

definition isHint :: "event \<Rightarrow> bool" where
  "isHint e = (case e of HintRevealed h \<Rightarrow> True | _ \<Rightarrow> False)"

definition isRoundEnded :: "event \<Rightarrow> bool" where
  "isRoundEnded e = (case e of RoundEnded r \<Rightarrow> True | _ \<Rightarrow> False)"

section \<open>Runs of one game\<close>

text \<open>
  The operations that the handlers apply to a game between its start and its end, and a
  run of them. \<open>startGame\<close> is not among them: it begins another game. Every new round
  comes with its own rearrangement of the available words. \<open>selections\<close> lists the words
  of the successful selections of a run, in order.
\<close>

datatype gameOp =
    AddPlayer user
  | RemovePlayer string
  | StartRound "string list \<Rightarrow> string list"
  | SelectWord string int
  | ProcessGuess string string int
  | EndRound
  | EndGame

fun applyOp :: "gameOp \<Rightarrow> game \<Rightarrow> game" where
  "applyOp (AddPlayer u) g = addPlayer_on g u"
| "applyOp (RemovePlayer playerId) g = snd (removePlayer_on g playerId)"
| "applyOp (StartRound shuffle) g = (if isActive g then snd (startRound_on shuffle g) else g)"
| "applyOp (SelectWord word now) g = snd (selectWord_on g word now)"
| "applyOp (ProcessGuess playerId guess now) g = snd (processGuess_on g playerId guess now)"
| "applyOp EndRound g = snd (endRound_on g)"
| "applyOp EndGame g = snd (endGame_on g)"

definition run :: "gameOp list \<Rightarrow> game \<Rightarrow> game" where
  "run ops g = fold applyOp ops g"

fun selected :: "gameOp \<Rightarrow> game \<Rightarrow> string list" where
  "selected (SelectWord word now) g = (if fst (selectWord_on g word now) then [word] else [])"
| "selected _ g = []"

fun selections :: "gameOp list \<Rightarrow> game \<Rightarrow> string list" where
  "selections [] g = []"
| "selections (x # xs) g = selected x g @ selections xs (applyOp x g)"

section \<open>Concrete rooms and games\<close>

text \<open>
  The concrete states at which the theorems below are instantiated. The room \<open>r1\<close> has
  the users A, B and C. Its game is taken at four moments: before a game was started
  (\<open>lobby\<close>), just started (\<open>started\<close>), in the first round while the drawer A has not
  chosen among the offered words (\<open>waiting\<close>), and in the first round while A draws
  \<open>apple\<close>, selected at clock reading 1000 (\<open>drawing\<close>). \<open>guessedState\<close> is the drawing
  state after B has answered \<open>Apple\<close> at 11000. The room \<open>r2\<close> has the single user A.
\<close>

definition userA :: user where
  "userA = \<lparr>u_id = ''A'', u_username = ''alice'', u_color = ''#FF6B6B''\<rparr>"

definition userB :: user where
  "userB = \<lparr>u_id = ''B'', u_username = ''bob'', u_color = ''#4ECDC4''\<rparr>"

definition userC :: user where
  "userC = \<lparr>u_id = ''C'', u_username = ''carol'', u_color = ''#45B7D1''\<rparr>"

definition playerA :: player where
  "playerA = \<lparr>p_id = ''A'', p_username = ''alice'', score = 0, hasGuessed = False\<rparr>"

definition playerB :: player where
  "playerB = \<lparr>p_id = ''B'', p_username = ''bob'', score = 0, hasGuessed = False\<rparr>"

definition playerC :: player where
  "playerC = \<lparr>p_id = ''C'', p_username = ''carol'', score = 0, hasGuessed = False\<rparr>"

definition room1 :: room where
  "room1 = \<lparr>r_id = ''r1'', r_name = ''lobby'', users = [userA, userB, userC],
            drawingData = [], createdAt = 0\<rparr>"

definition lobbyGame :: game where
  "lobbyGame =
     \<lparr>g_roomId = ''r1'', rounds = 3, currentRound = 0, drawTime = 60, isActive = False,
      isRoundActive = False, currentDrawer = None, currentWord = None, wordOptions = [],
      players = [playerA, playerB, playerC], guessedPlayers = [], roundStartTime = None,
      usedWords = [], g_settings = noSettings\<rparr>"

definition startedGame :: game where
  "startedGame = lobbyGame\<lparr>isActive := True\<rparr>"

definition waitingGame :: game where
  "waitingGame =
     startedGame\<lparr>currentRound := 1, currentDrawer := Some ''A'',
                 wordOptions := [''apple'', ''cat'', ''dog'']\<rparr>"

definition waitingState :: state where
  "waitingState = \<lparr>rooms = [(''r1'', room1)], games = [(''r1'', waitingGame)]\<rparr>"

definition drawingGame :: game where
  "drawingGame =
     \<lparr>g_roomId = ''r1'', rounds = 3, currentRound = 1, drawTime = 60, isActive = True,
      isRoundActive = True, currentDrawer = Some ''A'', currentWord = Some ''apple'',
      wordOptions = [''apple'', ''cat'', ''dog''], players = [playerA, playerB, playerC],
      guessedPlayers = [], roundStartTime = Some 1000, usedWords = [''apple''],
      g_settings = noSettings\<rparr>"

definition drawingState :: state where
  "drawingState = \<lparr>rooms = [(''r1'', room1)], games = [(''r1'', drawingGame)]\<rparr>"

definition guessedState :: state where
  "guessedState = o_state (handleChatMessage drawingState ''B'' ''r1'' ''Apple'' 11000)"

definition soloRoom :: room where
  "soloRoom = \<lparr>r_id = ''r2'', r_name = ''studio'', users = [userA], drawingData = [],
               createdAt = 0\<rparr>"

definition soloGame :: game where
  "soloGame = lobbyGame\<lparr>g_roomId := ''r2'', players := [playerA]\<rparr>"

definition soloState :: state where
  "soloState = \<lparr>rooms = [(''r2'', soloRoom)], games = [(''r2'', soloGame)]\<rparr>"



text \<open>
  A first round in which \<open>apple\<close> is selected and which is then ended, and what the second
  round offers when the available words come back reversed.
\<close>

definition firstRound :: "gameOp list" where
  "firstRound = [StartRound (\<lambda>ws. ws), SelectWord ''apple'' 1000, EndRound]"

definition secondOffer :: roundData where
  "secondOffer = \<lparr>rd_drawer = playerB, rd_wordOptions = [''bridge'', ''treasure'', ''shield''],
                  rd_round = 2, rd_totalRounds = 3\<rparr>"


section \<open>Facts about the array primitives\<close>





lemma processGuess_on_noGuess:
  "\<not> correct (fst (processGuess_on g pid guess now)) \<Longrightarrow> processGuess_on g pid guess now = (noGuess, g)"
  by (auto simp: processGuess_on_def Let_def split: option.splits if_splits)

section \<open>The last user leaves a room\<close>

text \<open>
  C1. When the last user of a room disconnects, the room and its game are to be removed
  together. Evaluated on the room \<open>r2\<close>, whose only user A disconnects: the room is
  removed from the registry of rooms, and the registry of games still holds the game of
  \<open>r2\<close>, now without players. \<open>deleteGame\<close> is never called.
\<close>

theorem last_user_leaves_game_behind:
  "getUser (rooms soloState) ''r2'' ''A'' = Some userA
   \<and> map u_id (users soloRoom) = [''A'']
   \<and> getRoom (rooms (o_state (handleDisconnect soloState ''A''))) ''r2'' = None
   \<and> getGame (games (o_state (handleDisconnect soloState ''A''))) ''r2''
       = Some (soloGame\<lparr>players := []\<rparr>)"
  by code_simp

section \<open>The word typed into the chat\<close>

text \<open>
  C2. The text of a message that equals the current word is not to be broadcast as chat,
  whether or not its sender has guessed already. Evaluated on the state in which B has
  guessed \<open>apple\<close> and C has not: B sends \<open>apple\<close> once more, \<open>processGuess\<close> reports no
  correct guess for a player who has guessed, and the handler broadcasts the text as a
  \<open>chat-message\<close> that reaches A, B and C.
\<close>

theorem repeated_correct_word_is_broadcast:
  "map_option (\<lambda>g. (isRoundActive g, currentWord g, currentDrawer g, guessedPlayers g))
      (getGame (games guessedState) ''r1'')
     = Some (True, Some ''apple'', Some ''A'', [''B''])
   \<and> o_emits (handleChatMessage guessedState ''B'' ''r1'' ''apple'' 12000)
       = [(ToOthers ''r1'', ChatMessage userB ''apple'' 12000 True),
          (ToSelf, ChatMessage userB ''apple'' 12000 True)]
   \<and> receivers guessedState ''B'' (isChat ''apple'')
         (o_emits (handleChatMessage guessedState ''B'' ''r1'' ''apple'' 12000))
       = {''A'', ''B'', ''C''}"
  by code_simp

section \<open>Ending a round that is not active\<close>

text \<open>
  C3. \<open>endRound\<close> with no active round is to change nothing and to send nothing.
  Evaluated on the state in which the drawer has not yet chosen a word, so that no round
  is active: \<open>end-round\<close> from B empties the offered words, broadcasts \<open>round-ended\<close> with
  no word, and schedules the next round.
\<close>

theorem endRound_without_round_acts:
  "isRoundActive waitingGame = False
   \<and> wordOptions waitingGame = [''apple'', ''cat'', ''dog'']
   \<and> map_option wordOptions (getGame (games (o_state (handleEndRound waitingState ''B'' ''r1''))) ''r1'')
       = Some []
   \<and> o_emits (handleEndRound waitingState ''B'' ''r1'')
       = [(ToOthers ''r1'',
            RoundEnded \<lparr>rr_word = None, rr_scores = map toScore [playerA, playerB, playerC]\<rparr>),
          (ToSelf,
            RoundEnded \<lparr>rr_word = None, rr_scores = map toScore [playerA, playerB, playerC]\<rparr>)]
   \<and> o_timers (handleEndRound waitingState ''B'' ''r1'') = [(5000, CallHandleStartRound ''r1'')]"
  by code_simp

section \<open>Joining a room twice\<close>

text \<open>
  C4. A second \<open>join-room\<close> from a connection that is already in the room is to leave it
  once in the users and once in the players. Evaluated on the room \<open>r1\<close>, which B joins
  again: \<open>addPlayer\<close> finds the player and adds nothing, \<open>addUser\<close> appends without
  looking, and B is in the users twice.
\<close>

theorem second_join_duplicates_user:
  "getUser (rooms drawingState) ''r1'' ''B'' = Some userB
   \<and> map_option (\<lambda>r. map u_id (users r))
        (getRoom (rooms (o_state (handleJoinRoom drawingState ''B'' ''r1'' ''bob'' ''#4ECDC4''))) ''r1'')
       = Some [''A'', ''B'', ''C'', ''B'']
   \<and> map_option (\<lambda>g. map p_id (players g))
        (getGame (games (o_state (handleJoinRoom drawingState ''B'' ''r1'' ''bob'' ''#4ECDC4''))) ''r1'')
       = Some [''A'', ''B'', ''C'']"
  by code_simp

section \<open>Scoring of a correct guess\<close>



section \<open>The drawer leaves\<close>

text \<open>
  C6. When the drawer disconnects while drawing or while choosing a word, the round is to
  end with a \<open>round-ended\<close> event to the remaining members. Evaluated on both states, with
  the drawer A disconnecting: the only emission is \<open>user-left\<close>, nobody receives
  \<open>round-ended\<close> and nothing is scheduled. While A was choosing, the game is left as it
  was but for its players: the words stay offered to a drawer who is gone.
\<close>

theorem drawer_leaves_without_round_ended:
  "o_emits (handleDisconnect drawingState ''A'') = [(ToOthers ''r1'', UserLeft userA)]
   \<and> o_timers (handleDisconnect drawingState ''A'') = []
   \<and> receivers (o_state (handleDisconnect drawingState ''A'')) ''A'' isRoundEnded
         (o_emits (handleDisconnect drawingState ''A'')) = {}
   \<and> map_option isRoundActive
        (getGame (games (o_state (handleDisconnect drawingState ''A''))) ''r1'') = Some False
   \<and> o_emits (handleDisconnect waitingState ''A'') = [(ToOthers ''r1'', UserLeft userA)]
   \<and> o_timers (handleDisconnect waitingState ''A'') = []
   \<and> getGame (games (o_state (handleDisconnect waitingState ''A''))) ''r1''
       = Some (waitingGame\<lparr>players := [playerB, playerC]\<rparr>)"
  by code_simp

section \<open>Settings of a game\<close>




section \<open>Used words\<close>

lemma usedWords_processGuess_on:
  "usedWords (snd (processGuess_on g pid guess now)) = usedWords g"
  by (simp add: processGuess_on_def Let_def split: option.splits)

lemma usedWords_startRound_on:
  "usedWords (snd (startRound_on sh g)) = usedWords g"
  by (simp add: startRound_on_def endGame_on_def Let_def)

lemma usedWords_removePlayer_on:
  "usedWords (snd (removePlayer_on g pid)) = usedWords g"
  by (simp add: removePlayer_on_def endRound_on_def Let_def split: option.splits)

lemma usedWords_applyOp: "usedWords (applyOp x g) = usedWords g @ selected x g"
  by (cases x)
    (simp_all add: addPlayer_on_def selectWord_on_def endRound_on_def endGame_on_def Let_def
      usedWords_processGuess_on usedWords_startRound_on usedWords_removePlayer_on
      split: option.splits)

lemma usedWords_run: "usedWords (run xs g) = usedWords g @ selections xs g"
  by (induction xs arbitrary: g) (simp_all add: run_def usedWords_applyOp)

lemma generateWordOptions_fresh:
  assumes "\<And>ws. set (sh ws) \<subseteq> set ws"
  shows "set (generateWordOptions sh used) \<inter> set used = {}"
proof -
  have "set (generateWordOptions sh used) \<subseteq> set (sh (filter (\<lambda>w. w \<notin> set used) allWords))"
    by (simp add: generateWordOptions_def Let_def set_take_subset)
  also have "\<dots> \<subseteq> set (filter (\<lambda>w. w \<notin> set used) allWords)"
    by (rule assms)
  finally show ?thesis by auto
qed

lemma startRound_on_offer:
  assumes "startRound_on sh g = (Inr (Some rd), g')"
  shows "wordOptions g' = rd_wordOptions rd
    \<and> rd_wordOptions rd = generateWordOptions sh (usedWords g) \<and> usedWords g' = usedWords g"
  using assms
  by (auto simp: startRound_on_def endGame_on_def Let_def split: if_splits)

text \<open>
  C8, as amended. Within one game \<open>usedWords\<close> only grows: after any run of operations
  it is what it was, followed by the words of the successful selections of the run, in
  order. \<open>selectWord\<close> succeeds exactly when the word is among the offered ones, and then
  appends it; a failed selection appends nothing. The words that a new round offers,
  whatever the rearrangement, are disjoint from \<open>usedWords\<close> and so from every word
  selected earlier in the game. How many selections a round sees is not fixed, and a word
  that was offered and not selected may be offered again.
\<close>

theorem usedWords_grow_by_selection:
  "usedWords (run xs g) = usedWords g @ selections xs g
   \<and> fst (selectWord_on g word now) = (word \<in> set (wordOptions g))
   \<and> usedWords (snd (selectWord_on g word now))
       = (if fst (selectWord_on g word now) then usedWords g @ [word] else usedWords g)
   \<and> ((\<forall>ws. set (sh ws) \<subseteq> set ws) \<and> startRound_on sh (run xs g) = (Inr (Some rd), g')
        \<longrightarrow> wordOptions g' = rd_wordOptions rd
            \<and> usedWords g' = usedWords (run xs g)
            \<and> set (rd_wordOptions rd) \<inter> (set (usedWords g) \<union> set (selections xs g)) = {})"
proof (intro conjI impI)
  show "usedWords (run xs g) = usedWords g @ selections xs g"
    by (rule usedWords_run)
  show "fst (selectWord_on g word now) = (word \<in> set (wordOptions g))"
    by (simp add: selectWord_on_def)
  show "usedWords (snd (selectWord_on g word now))
       = (if fst (selectWord_on g word now) then usedWords g @ [word] else usedWords g)"
    by (simp add: selectWord_on_def)
next
  assume a: "(\<forall>ws. set (sh ws) \<subseteq> set ws) \<and> startRound_on sh (run xs g) = (Inr (Some rd), g')"
  then have sub: "\<And>ws. set (sh ws) \<subseteq> set ws" by blast
  from a have offer: "wordOptions g' = rd_wordOptions rd"
    "rd_wordOptions rd = generateWordOptions sh (usedWords (run xs g))"
    "usedWords g' = usedWords (run xs g)"
    using startRound_on_offer by blast+
  show "wordOptions g' = rd_wordOptions rd" by (rule offer(1))
  show "usedWords g' = usedWords (run xs g)" by (rule offer(3))
  have "set (rd_wordOptions rd) \<inter> set (usedWords (run xs g)) = {}"
    unfolding offer(2) by (rule generateWordOptions_fresh [OF sub])
  then show "set (rd_wordOptions rd) \<inter> (set (usedWords g) \<union> set (selections xs g)) = {}"
    by (simp add: usedWords_run)
qed

text \<open>
  After a first round in which \<open>apple\<close> was selected, the second round offers \<open>bridge\<close>,
  \<open>treasure\<close> and \<open>shield\<close> when the available words come back reversed.
\<close>

theorem usedWords_grow_by_selection_witness:
  "startRound_on rev (run firstRound startedGame)
     = (Inr (Some secondOffer), snd (startRound_on rev (run firstRound startedGame)))
   \<and> usedWords (run firstRound startedGame) = [''apple'']
   \<and> wordOptions (snd (startRound_on rev (run firstRound startedGame)))
       = [''bridge'', ''treasure'', ''shield'']
   \<and> set (rd_wordOptions secondOffer) \<inter> set [''apple''] = {}"
proof -
  have perm: "\<forall>ws :: string list. set (rev ws) \<subseteq> set ws" by simp
  have "fst (startRound_on rev (run firstRound startedGame)) = Inr (Some secondOffer)"
    by code_simp
  then have offer: "startRound_on rev (run firstRound startedGame)
      = (Inr (Some secondOffer), snd (startRound_on rev (run firstRound startedGame)))"
    by (simp add: prod_eq_iff)
  have sel: "selections firstRound startedGame = [''apple'']" "usedWords startedGame = []"
    by code_simp+
  from usedWords_grow_by_selection
    [of firstRound startedGame _ _ rev secondOffer
      "snd (startRound_on rev (run firstRound startedGame))"]
    perm offer sel
  show ?thesis by (simp add: secondOffer_def)
qed

text \<open>
  The claim as stated fails in the count of one word for each round: \<open>selectWord\<close> does
  not look at \<open>isRoundActive\<close>, so the drawer can select twice in the first round, a second
  word or the same word again, and a round that is ended before a selection adds no word.
  A word that was offered and not selected can be offered again: \<open>banana\<close> and \<open>cat\<close> are
  offered in the first round and in the second.
\<close>

theorem two_selections_in_one_round:
  "currentRound (run [StartRound (\<lambda>ws. ws)] startedGame) = 1
   \<and> wordOptions (run [StartRound (\<lambda>ws. ws)] startedGame) = [''apple'', ''banana'', ''cat'']
   \<and> currentRound
        (run [StartRound (\<lambda>ws. ws), SelectWord ''apple'' 1000, SelectWord ''banana'' 2000]
          startedGame) = 1
   \<and> usedWords
        (run [StartRound (\<lambda>ws. ws), SelectWord ''apple'' 1000, SelectWord ''banana'' 2000]
          startedGame) = [''apple'', ''banana'']
   \<and> usedWords
        (run [StartRound (\<lambda>ws. ws), SelectWord ''apple'' 1000, SelectWord ''apple'' 2000]
          startedGame) = [''apple'', ''apple'']
   \<and> usedWords (run [StartRound (\<lambda>ws. ws), EndRound, StartRound (\<lambda>ws. ws)] startedGame) = []
   \<and> wordOptions (run (firstRound @ [StartRound (\<lambda>ws. ws)]) startedGame)
       = [''banana'', ''cat'', ''dog'']"
  by code_simp

section \<open>Who receives a hint\<close>

text \<open>
  C9. A hint is to reach every member of the room but the drawer. Evaluated on the
  drawing state, with the guesser B asking: \<open>socket.to(roomId)\<close> leaves out the sender
  only, so the drawer A is among the receivers of \<open>hint-revealed\<close>.
\<close>

theorem hint_reaches_drawer:
  "currentDrawer drawingGame = Some ''A''
   \<and> map_option o_emits (handleRequestHint drawingState ''B'' ''r1'' [0])
       = Some [(ToOthers ''r1'', HintRevealed ''a _ _ _ _''), (ToSelf, HintRevealed ''a _ _ _ _'')]
   \<and> map_option (\<lambda>out. receivers drawingState ''B'' isHint (o_emits out))
         (handleRequestHint drawingState ''B'' ''r1'' [0])
       = Some {''A'', ''B'', ''C''}"
  by code_simp

section \<open>A guess that is not correct\<close>

text \<open>
  C10. A call of \<open>processGuess\<close> that does not report a correct guess returns the failure
  object and leaves the registry of games, and so every player's score and flag and the
  list of guessers, as it was. This is the outcome whenever the room has no game, no round
  is active, no word is set, the player is unknown, is the drawer or has guessed already,
  or the trimmed lower-case guess differs from the lower-case word.
\<close>

theorem processGuess_failure_leaves_state:
  "(\<not> correct (fst (processGuess gs rid pid guess now))
      \<longrightarrow> processGuess gs rid pid guess now = (noGuess, gs))
   \<and> (map_of gs rid = None
        \<or> (\<exists>g. map_of gs rid = Some g
              \<and> (\<not> isRoundActive g
                  \<or> currentWord g = None \<or> currentWord g = Some []
                  \<or> find (\<lambda>p. p_id p = pid) (players g) = None
                  \<or> currentDrawer g = Some pid
                  \<or> (\<exists>p. find (\<lambda>p. p_id p = pid) (players g) = Some p \<and> hasGuessed p)
                  \<or> (\<exists>w. currentWord g = Some w \<and> trim (toLowerCase guess) \<noteq> toLowerCase w)))
      \<longrightarrow> \<not> correct (fst (processGuess gs rid pid guess now)))"
proof (intro conjI impI)
  assume nc: "\<not> correct (fst (processGuess gs rid pid guess now))"
  show "processGuess gs rid pid guess now = (noGuess, gs)"
  proof (cases "map_of gs rid")
    case None
    then show ?thesis by (simp add: processGuess_def)
  next
    case (Some g)
    with nc have "\<not> correct (fst (processGuess_on g pid guess now))"
      by (simp add: processGuess_def Let_def)
    then have "processGuess_on g pid guess now = (noGuess, g)"
      by (rule processGuess_on_noGuess)
    with Some show ?thesis
      by (simp add: processGuess_def Let_def update_triv)
  qed
next
  assume "map_of gs rid = None
        \<or> (\<exists>g. map_of gs rid = Some g
              \<and> (\<not> isRoundActive g
                  \<or> currentWord g = None \<or> currentWord g = Some []
                  \<or> find (\<lambda>p. p_id p = pid) (players g) = None
                  \<or> currentDrawer g = Some pid
                  \<or> (\<exists>p. find (\<lambda>p. p_id p = pid) (players g) = Some p \<and> hasGuessed p)
                  \<or> (\<exists>w. currentWord g = Some w \<and> trim (toLowerCase guess) \<noteq> toLowerCase w)))"
  then show "\<not> correct (fst (processGuess gs rid pid guess now))"
    by (auto simp: processGuess_def processGuess_on_def noGuess_def Let_def split: option.splits)
qed

theorem processGuess_failure_leaves_state_witness:
  "\<not> correct (fst (processGuess (games drawingState) ''r1'' ''B'' ''banana'' 11000))
   \<and> processGuess (games drawingState) ''r1'' ''B'' ''banana'' 11000
       = (noGuess, games drawingState)"
proof -
  have g: "map_of (games drawingState) ''r1'' = Some drawingGame"
    by (simp add: drawingState_def)
  have "trim (toLowerCase ''banana'') \<noteq> toLowerCase ''apple''"
    by code_simp
  then have w: "currentWord drawingGame = Some ''apple''
      \<and> trim (toLowerCase ''banana'') \<noteq> toLowerCase ''apple''"
    by (simp add: drawingGame_def)
  from g w processGuess_failure_leaves_state
    [of "games drawingState" "''r1''" "''B''" "''banana''" 11000]
  show ?thesis by blast
qed

end
